theory Spec2Isabelle
  imports Complex_Main "HOL-Library.Word"
begin

section \<open>gptrepl: the session engine of a chat-completion REPL\<close>

text \<open>
  A shallow embedding of the Go program: \<^verbatim>\<open>main.go\<close> (the App, the input loop body
  \<^verbatim>\<open>appMain\<close>, the retrying exchange, the stream drain and the context store),
  \<^verbatim>\<open>util.go\<close> (the context file reader and writer) and the command handlers.
  Go strings are byte strings, here \<^typ>\<open>string\<close>. Every function that mutates the
  \<^verbatim>\<open>*App\<close> takes the App and returns the new one; a Go \<^verbatim>\<open>error\<close> result is an
  \<^typ>\<open>'a option\<close> whose \<open>None\<close> is \<^verbatim>\<open>nil\<close>.
\<close>

subsection \<open>Data model\<close>

record Message =
  Role :: string
  Content :: string

text \<open>
  Errors as values. \<open>EOF\<close> is \<^verbatim>\<open>io.EOF\<close>; \<open>LibraryError\<close> and \<open>PathError\<close> stand
  for errors made outside the program (the API, \<^verbatim>\<open>encoding/json\<close>, \<^verbatim>\<open>os\<close>,
  \<^verbatim>\<open>strconv\<close>). The others are the program's own \<^verbatim>\<open>fmt.Errorf\<close> values, one
  constructor per format string, holding the format's arguments:
  \<^item> \<open>NMustBeAtLeast1\<close>: "n must be at least 1"
  \<^item> \<open>CantPop n len\<close>: "can't pop n elements from the context because it only contains len elements"
  \<^item> \<open>FailedToSendContext e\<close>: "failed to send context: e"
  \<^item> \<open>StreamError e\<close>: "stream error: e"
  \<^item> \<open>ErrExpectNoArguments\<close>: "expected no arguments"
  \<^item> \<open>ExactlyOneArgumentRequired\<close>: "exactly one argument required (path to JSON file)"
  \<^item> \<open>ExpectedTwoArguments\<close>: "expected two arguments"
  \<^item> \<open>InvalidRole r\<close>: "invalid role: r"
  \<^item> \<open>InvalidRoleAttribute path idx\<close>: "path: message #idx (starting from zero) has an invalid "role" attribute"
  \<^item> \<open>ExpectedModelIdentifier\<close>: "expected exactly one argument (the identifier of the model)"
  \<^item> \<open>NoContentInFile\<close>: "no content in file"
\<close>

datatype error =
    EOF
  | LibraryError string
  | PathError string
  | NMustBeAtLeast1
  | CantPop int nat
  | FailedToSendContext error
  | StreamError error
  | ErrExpectNoArguments
  | ExactlyOneArgumentRequired
  | ExpectedTwoArguments
  | InvalidRole string
  | InvalidRoleAttribute string nat
  | ExpectedModelIdentifier
  | NoContentInFile

text \<open>
  \<^verbatim>\<open>errors.Is(err, target)\<close>: no error of this model wraps another with
  \<^verbatim>\<open>%w\<close> (the program formats with \<^verbatim>\<open>%v\<close>), so it is equality.
\<close>

definition errors_Is :: "error option \<Rightarrow> error \<Rightarrow> bool" where
  "errors_Is e target = (e = Some target)"

record CompletionDelta =
  delta :: string
  err :: "error option"

text \<open>
  A receive-only channel as its consumer sees it: the values the producer sends, in
  order, and whether the producer closes the channel after them. Receiving from an
  empty channel that is never closed (the \<^verbatim>\<open>nil\<close> channel too) blocks forever.
\<close>

datatype chan = Chan (pending: "CompletionDelta list") (is_closed: bool)

definition nil_chan :: chan where
  "nil_chan = Chan [] False"

text \<open>
  What the user printer received, in order. \<^verbatim>\<open>PrintError\<close> calls are kept by format:
  \<^item> \<open>UnknownCommand name\<close>: "unknown command: name"
  \<^item> \<open>CommandFailed name e\<close>: "name: e"
  \<^item> \<open>NoChangesDone e\<close>: "e (no changes done to context)"
  \<^item> \<open>FailedToWrite path e\<close>: "failed to write to file "path": e"
\<close>

datatype report =
    UnknownCommand string
  | CommandFailed string error
  | NoChangesDone error
  | FailedToWrite string error

datatype pevent = Print string | PrintWarning string | PrintError report

text \<open>
  The App struct. \<open>commandHandlers\<close> is the fixed table \<open>registerCommandHandlers\<close>
  below. The collaborators the struct points to are kept by what they have observed:
  \<open>printed\<close> (the printer), \<open>sent\<close> (the contexts passed to
  \<^verbatim>\<open>capi.SendContext\<close>, one per call), and the process's effects on the outside:
  \<open>files\<close> (the file system, path to contents), \<open>slept\<close> (the arguments of
  \<^verbatim>\<open>time.Sleep\<close>, in whole seconds), \<open>draws\<close> (the number of
  \<^verbatim>\<open>rand.Float64\<close> calls) and \<open>exited\<close> (the status of \<^verbatim>\<open>os.Exit\<close>).
\<close>

record App =
  "context" :: "Message list"
  model :: string
  slashCommandsDisabled :: bool
  quiet :: bool
  forgetful :: bool
  maxRetries :: "64 word"
  apiKey :: string
  autosaveFilePath :: string
  printed :: "pevent list"
  sent :: "Message list list"
  files :: "string \<rightharpoonup> string"
  slept :: "int list"
  draws :: nat
  exited :: "int option"

text \<open>
  The behaviour of what lies outside the program, as parameters:
  \<^item> \<open>json_MarshalIndent\<close>, \<open>json_Unmarshal\<close>: \<^verbatim>\<open>encoding/json\<close> at type
    \<^verbatim>\<open>[]Message\<close>;
  \<^item> \<open>writable\<close>: the paths \<^verbatim>\<open>os.WriteFile\<close> can write;
  \<^item> \<open>capi_SendContext k ctx\<close>: what the \<open>k\<close>-th call of \<^verbatim>\<open>SendContext\<close> (from 0)
    returns for \<open>ctx\<close>: an error, or a stream;
  \<^item> \<open>rand_Float64 k\<close>: the \<open>k\<close>-th value of \<^verbatim>\<open>rand.Float64()\<close>, in \<open>[0, 1)\<close>;
  \<^item> \<open>editor\<close>: what \<^verbatim>\<open>presentTextEditor\<close> returns (the temporary file's text
    after the external editor ran, or its error).
\<close>

record Env =
  json_MarshalIndent :: "Message list \<Rightarrow> error + string"
  json_Unmarshal :: "string \<Rightarrow> error + Message list"
  writable :: "string \<Rightarrow> bool"
  capi_SendContext :: "nat \<Rightarrow> Message list \<Rightarrow> error + chan"
  rand_Float64 :: "nat \<Rightarrow> real"
  editor :: "error + string"

subsection \<open>util.go: the context file\<close>

definition isRoleValid :: "string \<Rightarrow> bool" where
  "isRoleValid role = (role = ''user'' \<or> role = ''assistant'' \<or> role = ''system'')"

definition os_ReadFile :: "(string \<rightharpoonup> string) \<Rightarrow> string \<Rightarrow> error + string" where
  "os_ReadFile fs path = (case fs path of None \<Rightarrow> Inl (PathError path) | Some data \<Rightarrow> Inr data)"

text \<open>A write that fails leaves the file system as it was.\<close>

definition os_WriteFile ::
  "Env \<Rightarrow> (string \<rightharpoonup> string) \<Rightarrow> string \<Rightarrow> string \<Rightarrow> error option \<times> (string \<rightharpoonup> string)" where
  "os_WriteFile e fs path data =
     (if writable e path then (None, fs(path \<mapsto> data)) else (Some (PathError path), fs))"

text \<open>The loop \<^verbatim>\<open>for idx, msg := range unmarshaled\<close> of \<^verbatim>\<open>parseContextFile\<close>.\<close>

fun checkRoles :: "string \<Rightarrow> nat \<Rightarrow> Message list \<Rightarrow> error option" where
  "checkRoles path idx [] = None"
| "checkRoles path idx (msg # rest) =
     (if \<not> isRoleValid (Role msg) then Some (InvalidRoleAttribute path idx)
      else checkRoles path (idx + 1) rest)"

definition parseContextFile ::
  "Env \<Rightarrow> (string \<rightharpoonup> string) \<Rightarrow> string \<Rightarrow> error + Message list" where
  "parseContextFile e fs path =
     (case os_ReadFile fs path of
        Inl er \<Rightarrow> Inl er
      | Inr data \<Rightarrow>
          (case json_Unmarshal e data of
             Inl er \<Rightarrow> Inl er
           | Inr unmarshaled \<Rightarrow>
               (case checkRoles path 0 unmarshaled of
                  Some er \<Rightarrow> Inl er
                | None \<Rightarrow> Inr unmarshaled)))"

definition writeContextFile ::
  "Env \<Rightarrow> (string \<rightharpoonup> string) \<Rightarrow> string \<Rightarrow> Message list \<Rightarrow> error option \<times> (string \<rightharpoonup> string)" where
  "writeContextFile e fs path ctx =
     (case json_MarshalIndent e ctx of
        Inl er \<Rightarrow> (Some er, fs)
      | Inr marshaled \<Rightarrow> os_WriteFile e fs path marshaled)"

subsection \<open>main.go: the context store\<close>

definition tryUpdateAutosaveFile :: "Env \<Rightarrow> App \<Rightarrow> App" where
  "tryUpdateAutosaveFile e app =
     (if autosaveFilePath app = [] then app
      else
        (case writeContextFile e (files app) (autosaveFilePath app) (context app) of
           (None, fs) \<Rightarrow> app\<lparr>files := fs\<rparr>
         | (Some er, fs) \<Rightarrow>
             app\<lparr>files := fs,
                 printed := printed app @ [PrintError (FailedToWrite (autosaveFilePath app) er)]\<rparr>))"

definition appendToContext :: "Env \<Rightarrow> App \<Rightarrow> Message \<Rightarrow> App" where
  "appendToContext e app msg = tryUpdateAutosaveFile e (app\<lparr>context := context app @ [msg]\<rparr>)"

text \<open>
  \<^verbatim>\<open>app.context[:len(app.context)-n]\<close> is reached only with \<open>1 \<le> n \<le> len\<close>, where
  the slice bound is in range.
\<close>

definition popFromContext :: "Env \<Rightarrow> App \<Rightarrow> int \<Rightarrow> App \<times> error option" where
  "popFromContext e app n =
     (if n < 1 then (app, Some NMustBeAtLeast1)
      else if n > int (length (context app)) then (app, Some (CantPop n (length (context app))))
      else
        (tryUpdateAutosaveFile e
           (app\<lparr>context := take (length (context app) - nat n) (context app)\<rparr>),
         None))"

subsection \<open>Strings\<close>

text \<open>
  \<^verbatim>\<open>strings.TrimSpace\<close> on the ASCII white space (tab, line feed, vertical tab,
  form feed, carriage return, space). Go also trims the Unicode spaces beyond ASCII,
  which are several bytes each in UTF-8; they are left alone here.
\<close>

definition isSpace :: "char \<Rightarrow> bool" where
  "isSpace c = (c = CHR 0x09 \<or> c = CHR 0x0A \<or> c = CHR 0x0B \<or> c = CHR 0x0C \<or> c = CHR 0x0D
     \<or> c = CHR '' '')"

definition strings_TrimSpace :: "string \<Rightarrow> string" where
  "strings_TrimSpace s = rev (dropWhile isSpace (rev (dropWhile isSpace s)))"

text \<open>\<^verbatim>\<open>strings.Cut(s, " ")\<close>: the text before the first space, the text after it, and
  whether there is one.\<close>

definition strings_Cut :: "string \<Rightarrow> string \<times> string \<times> bool" where
  "strings_Cut s =
     (takeWhile (\<lambda>c. c \<noteq> CHR '' '') s,
      drop 1 (dropWhile (\<lambda>c. c \<noteq> CHR '' '') s),
      CHR '' '' \<in> set s)"

text \<open>
  \<^verbatim>\<open>strconv.ParseInt(s, 10, 32)\<close>: an optional sign, then one or more decimal digits,
  and the value within 32 signed bits; anything else is an error.
\<close>

definition isDigit :: "char \<Rightarrow> bool" where
  "isDigit c = ((48::nat) \<le> of_char c \<and> of_char c \<le> (57::nat))"

fun digitsValue :: "int \<Rightarrow> string \<Rightarrow> int" where
  "digitsValue acc [] = acc"
| "digitsValue acc (c # cs) = digitsValue (acc * 10 + (of_char c - 48)) cs"

definition strconv_ParseInt :: "string \<Rightarrow> error + int" where
  "strconv_ParseInt s =
     (let neg = (s \<noteq> [] \<and> hd s = CHR ''-'');
          ds = (if s \<noteq> [] \<and> (hd s = CHR ''-'' \<or> hd s = CHR ''+'') then tl s else s);
          n = (if neg then - digitsValue 0 ds else digitsValue 0 ds)
      in if ds = [] \<or> \<not> list_all isDigit ds then Inl (LibraryError ''strconv.ParseInt: invalid syntax'')
         else if n < - (2 ^ 31) \<or> 2 ^ 31 - 1 < n
           then Inl (LibraryError ''strconv.ParseInt: value out of range'')
         else Inr n)"

subsection \<open>main.go: the exchange\<close>

text \<open>
  \<^verbatim>\<open>printAndCollectStream\<close>. The loop receives until the channel is closed or a
  delta carries an error; \<open>collect\<close> is the buffer, the second argument the printer.
  The result is \<open>None\<close> when the loop blocks forever on a channel that is empty and
  never closed.
\<close>

fun collectLoop ::
  "string \<Rightarrow> pevent list \<Rightarrow> CompletionDelta list \<Rightarrow> bool
     \<Rightarrow> ((string \<times> error option) \<times> pevent list) option" where
  "collectLoop collect pr [] cl =
     (if cl then Some ((collect, None), pr @ [Print [CHR 0x0A]]) else None)"
| "collectLoop collect pr (response # rest) cl =
     (if errors_Is (err response) EOF then Some ((collect, None), pr @ [Print [CHR 0x0A]])
      else if err response \<noteq> None then Some (([], err response), pr)
      else collectLoop (collect @ delta response) (pr @ [Print (delta response)]) rest cl)"

definition printAndCollectStream ::
  "pevent list \<Rightarrow> chan \<Rightarrow> ((string \<times> error option) \<times> pevent list) option" where
  "printAndCollectStream pr stream = collectLoop [] pr (pending stream) (is_closed stream)"

text \<open>One call of \<^verbatim>\<open>app.capi.SendContext(app.context)\<close>; a failed call returns the
  \<^verbatim>\<open>nil\<close> channel with its error.\<close>

definition SendContext :: "Env \<Rightarrow> App \<Rightarrow> (chan \<times> error option) \<times> App" where
  "SendContext e app =
     ((case capi_SendContext e (length (sent app)) (context app) of
         Inl er \<Rightarrow> (nil_chan, Some er)
       | Inr stream \<Rightarrow> (stream, None)),
      app\<lparr>sent := sent app @ [context app]\<rparr>)"

text \<open>
  \<^verbatim>\<open>time.Duration(waitTime)\<close> converts the \<^verbatim>\<open>float64\<close> to an integer, towards
  zero. \<open>waitTime\<close> is a \<^typ>\<open>real\<close> here: the doubling is exact in \<^verbatim>\<open>float64\<close>,
  the sum with the jitter is rounded there and exact here. The product with
  \<^verbatim>\<open>time.Second\<close> is kept in seconds.
\<close>

definition time_Duration :: "real \<Rightarrow> int" where
  "time_Duration x = (if 0 \<le> x then \<lfloor>x\<rfloor> else \<lceil>x\<rceil>)"

text \<open>
  The loop \<^verbatim>\<open>for retries >= 0\<close> of \<^verbatim>\<open>sendContextAndProcessResponse\<close>, with its
  variables \<open>retries\<close>, \<open>waitTime\<close>, \<open>stream\<close> and \<open>err\<close>.
\<close>

function retryLoop ::
  "Env \<Rightarrow> App \<Rightarrow> int \<Rightarrow> real \<Rightarrow> chan \<Rightarrow> error option \<Rightarrow> chan \<times> error option \<times> App" where
  "retryLoop e app retries waitTime stream er =
     (if 0 \<le> retries then
        (case SendContext e app of
           ((stream', er'), app') \<Rightarrow>
             if er' \<noteq> None \<and> 0 < retries then
               retryLoop e
                 (app'\<lparr>slept := slept app' @ [time_Duration waitTime], draws := draws app' + 1\<rparr>)
                 (retries - 1)
                 (waitTime * 2 + rand_Float64 e (draws app') / 3)
                 stream' er'
             else (stream', er', app'))
      else (stream, er, app))"
  by pat_completeness auto
termination
  by (relation "measure (\<lambda>(e, app, retries, waitTime, stream, er). nat retries)") auto

text \<open>
  \<^verbatim>\<open>retries := int64(app.maxRetries)\<close> reads the bits of the \<^verbatim>\<open>uint\<close> (64 of them
  on a 64-bit platform) as signed: a count of \<open>2^63\<close> or more starts the loop negative.
\<close>

definition sendContextAndProcessResponse ::
  "Env \<Rightarrow> App \<Rightarrow> ((string \<times> error option) \<times> App) option" where
  "sendContextAndProcessResponse e app =
     (case retryLoop e app (sint (maxRetries app)) 1 nil_chan None of
        (stream, er, app1) \<Rightarrow>
          (case er of
             Some x \<Rightarrow> Some (([], Some (FailedToSendContext x)), app1)
           | None \<Rightarrow>
               (case printAndCollectStream (printed app1) stream of
                  None \<Rightarrow> None
                | Some ((responseContent, er2), pr) \<Rightarrow>
                    (case er2 of
                       Some x \<Rightarrow> Some (([], Some (StreamError x)), app1\<lparr>printed := pr\<rparr>)
                     | None \<Rightarrow> Some ((responseContent, None), app1\<lparr>printed := pr\<rparr>)))))"

subsection \<open>The command handlers\<close>

text \<open>
  A handler \<^verbatim>\<open>func(*App, string) error\<close> returns the new App and the error. The
  handlers that perform an exchange return \<open>None\<close> when the exchange blocks forever.
  Of a \<^verbatim>\<open>Command\<close> the table below keeps the handler; its description and argument
  placeholders are help text.
\<close>

definition parseSingleIntegerFromArguments :: "string \<Rightarrow> int \<Rightarrow> error + int" where
  "parseSingleIntegerFromArguments args defaultValue =
     (if args = [] then Inr defaultValue else strconv_ParseInt args)"

definition parseSingleMessageFromArguments :: "string \<Rightarrow> error + (string \<times> string)" where
  "parseSingleMessageFromArguments args =
     (if args = [] then Inl ExpectedTwoArguments
      else
        (case strings_Cut args of
           (role, msg, found) \<Rightarrow>
             if \<not> isRoleValid role then Inl (InvalidRole role) else Inr (role, msg)))"

definition readContextFileFromArguments ::
  "Env \<Rightarrow> (string \<rightharpoonup> string) \<Rightarrow> string \<Rightarrow> error + Message list" where
  "readContextFileFromArguments e fs args =
     (if args = [] then Inl ExactlyOneArgumentRequired else parseContextFile e fs args)"

definition commandNames :: "string list" where
  "commandNames =
     [''help'', ''save'', ''replacefrom'', ''appendfrom'', ''prependfrom'', ''clear'', ''print'',
      ''append'', ''prepend'', ''model'', ''pop'', ''escape'', ''nano'', ''ns'', ''send'',
      ''autosave'', ''exit'']"

text \<open>
  \<^verbatim>\<open>helpCommand\<close> prints one entry per registered command; the entry's argument
  placeholders and description lines are left out, and the order of a Go map's
  iteration is not fixed.
\<close>

definition helpCommand :: "App \<Rightarrow> string \<Rightarrow> App \<times> error option" where
  "helpCommand app args =
     (let app1 =
        (if args \<noteq> [] then
           app\<lparr>printed := printed app @
             [PrintWarning (''This command takes no arguments. Showing help anyways'' @ [CHR 0x0A])]\<rparr>
         else app)
      in (app1\<lparr>printed := printed app1 @ map (\<lambda>name. Print (''/'' @ name)) commandNames\<rparr>, None))"

definition saveCommand :: "Env \<Rightarrow> App \<Rightarrow> string \<Rightarrow> App \<times> error option" where
  "saveCommand e app path =
     (if path = [] then (app, Some ExactlyOneArgumentRequired)
      else
        (case writeContextFile e (files app) path (context app) of
           (er, fs) \<Rightarrow> (app\<lparr>files := fs\<rparr>, er)))"

definition replaceFromCommand :: "Env \<Rightarrow> App \<Rightarrow> string \<Rightarrow> App \<times> error option" where
  "replaceFromCommand e app path =
     (case readContextFileFromArguments e (files app) path of
        Inl er \<Rightarrow> (app, Some er)
      | Inr ctx \<Rightarrow> (app\<lparr>context := ctx\<rparr>, None))"

definition appendFromCommand :: "Env \<Rightarrow> App \<Rightarrow> string \<Rightarrow> App \<times> error option" where
  "appendFromCommand e app path =
     (case readContextFileFromArguments e (files app) path of
        Inl er \<Rightarrow> (app, Some er)
      | Inr ctx \<Rightarrow> (app\<lparr>context := context app @ ctx\<rparr>, None))"

definition prependFromCommand :: "Env \<Rightarrow> App \<Rightarrow> string \<Rightarrow> App \<times> error option" where
  "prependFromCommand e app path =
     (case readContextFileFromArguments e (files app) path of
        Inl er \<Rightarrow> (app, Some er)
      | Inr ctx \<Rightarrow> (app\<lparr>context := ctx @ context app\<rparr>, None))"

definition clearCommand :: "Env \<Rightarrow> App \<Rightarrow> string \<Rightarrow> App \<times> error option" where
  "clearCommand e app args =
     (if args \<noteq> [] then (app, Some ErrExpectNoArguments)
      else (tryUpdateAutosaveFile e (app\<lparr>context := []\<rparr>), None))"

text \<open>The colour escapes of \<^verbatim>\<open>printCommand\<close> are left out of the printed text.\<close>

definition printCommand :: "App \<Rightarrow> string \<Rightarrow> App \<times> error option" where
  "printCommand app args =
     (let app1 =
        (if args \<noteq> [] then
           app\<lparr>printed := printed app @
             [PrintWarning (''this command takes no arguments. Printing context anyways'' @ [CHR 0x0A])]\<rparr>
         else app)
      in (app1\<lparr>printed := printed app1 @
            concat (map (\<lambda>msg. [Print (''['' @ Role msg @ '']'' @ [CHR 0x0A]),
                                 Print (Content msg @ [CHR 0x0A, CHR 0x0A])]) (context app1))\<rparr>,
          None))"

definition appendCommand :: "Env \<Rightarrow> App \<Rightarrow> string \<Rightarrow> App \<times> error option" where
  "appendCommand e app args =
     (case parseSingleMessageFromArguments args of
        Inl er \<Rightarrow> (app, Some er)
      | Inr (role, msg0) \<Rightarrow>
          (let msg = strings_TrimSpace msg0;
               app1 =
                 (if msg = [] then
                    app\<lparr>printed := printed app @
                      [PrintWarning (''appending empty string to context'' @ [CHR 0x0A])]\<rparr>
                  else app)
           in (appendToContext e app1 \<lparr>Role = role, Content = msg\<rparr>, None)))"

definition prependCommand :: "App \<Rightarrow> string \<Rightarrow> App \<times> error option" where
  "prependCommand app args =
     (case parseSingleMessageFromArguments args of
        Inl er \<Rightarrow> (app, Some er)
      | Inr (role, msg0) \<Rightarrow>
          (let msg = strings_TrimSpace msg0;
               app1 =
                 (if msg = [] then
                    app\<lparr>printed := printed app @
                      [PrintWarning (''prepending empty string to context'' @ [CHR 0x0A])]\<rparr>
                  else app)
           in (app1\<lparr>context := \<lparr>Role = role, Content = msg\<rparr> # context app1\<rparr>, None)))"

definition modelCommand :: "App \<Rightarrow> string \<Rightarrow> App \<times> error option" where
  "modelCommand app m =
     (if m = [] then (app, Some ExpectedModelIdentifier) else (app\<lparr>model := m\<rparr>, None))"

definition popCommand :: "Env \<Rightarrow> App \<Rightarrow> string \<Rightarrow> App \<times> error option" where
  "popCommand e app args =
     (case parseSingleIntegerFromArguments args 2 of
        Inl er \<Rightarrow> (app, Some er)
      | Inr n \<Rightarrow> popFromContext e app n)"

definition escapeCommand :: "Env \<Rightarrow> App \<Rightarrow> string \<Rightarrow> (App \<times> error option) option" where
  "escapeCommand e app messageContent =
     (let app1 = appendToContext e app \<lparr>Role = ''user'', Content = messageContent\<rparr>
      in case sendContextAndProcessResponse e app1 of
           None \<Rightarrow> None
         | Some ((resp, er), app2) \<Rightarrow>
             (case er of
                Some x \<Rightarrow> Some (app2, Some x)
              | None \<Rightarrow> Some (appendToContext e app2 \<lparr>Role = ''assistant'', Content = resp\<rparr>, None)))"

definition nanoCommand :: "Env \<Rightarrow> App \<Rightarrow> string \<Rightarrow> App \<times> error option" where
  "nanoCommand e app role =
     (if \<not> isRoleValid role then (app, Some (InvalidRole role))
      else
        (case editor e of
           Inl er \<Rightarrow> (app, Some er)
         | Inr content0 \<Rightarrow>
             (let content = strings_TrimSpace content0
              in if content = [] then (app, Some NoContentInFile)
                 else (appendToContext e app \<lparr>Role = role, Content = content\<rparr>, None))))"

definition sendCommand :: "Env \<Rightarrow> App \<Rightarrow> string \<Rightarrow> (App \<times> error option) option" where
  "sendCommand e app args =
     (if args \<noteq> [] then Some (app, Some ErrExpectNoArguments)
      else
        (case sendContextAndProcessResponse e app of
           None \<Rightarrow> None
         | Some ((responseContent, er), app1) \<Rightarrow>
             (case er of
                Some x \<Rightarrow> Some (app1, Some x)
              | None \<Rightarrow>
                  Some (appendToContext e app1 \<lparr>Role = ''assistant'', Content = responseContent\<rparr>,
                        None))))"

definition nanoSendCommand :: "Env \<Rightarrow> App \<Rightarrow> string \<Rightarrow> (App \<times> error option) option" where
  "nanoSendCommand e app role0 =
     (let role = (if role0 = [] then ''user'' else role0)
      in if \<not> isRoleValid role then Some (app, Some (InvalidRole role))
         else
           (case editor e of
              Inl er \<Rightarrow> Some (app, Some er)
            | Inr content0 \<Rightarrow>
                (let content = strings_TrimSpace content0
                 in if content = [] then Some (app, Some NoContentInFile)
                    else
                      (let app1 = appendToContext e app \<lparr>Role = role, Content = content\<rparr>;
                           app2 = app1\<lparr>printed := printed app1 @ [Print (content @ [CHR 0x0A])]\<rparr>
                       in case sendContextAndProcessResponse e app2 of
                            None \<Rightarrow> None
                          | Some ((responseContent, er), app3) \<Rightarrow>
                              (case er of
                                 Some x \<Rightarrow> Some (app3, Some x)
                               | None \<Rightarrow>
                                   Some (appendToContext e app3
                                           \<lparr>Role = ''assistant'', Content = responseContent\<rparr>,
                                         None))))))"

definition autosaveCommand :: "Env \<Rightarrow> App \<Rightarrow> string \<Rightarrow> App \<times> error option" where
  "autosaveCommand e app path = (tryUpdateAutosaveFile e (app\<lparr>autosaveFilePath := path\<rparr>), None)"

text \<open>\<^verbatim>\<open>os.Exit\<close> ends the process: \<open>exited\<close> holds its status from then on.\<close>

definition exitCommand :: "App \<Rightarrow> string \<Rightarrow> App \<times> error option" where
  "exitCommand app code =
     (case parseSingleIntegerFromArguments code 0 of
        Inl er \<Rightarrow> (app, Some er)
      | Inr n \<Rightarrow> (app\<lparr>exited := Some n\<rparr>, None))"

definition registerCommandHandlers ::
  "(string \<times> (Env \<Rightarrow> App \<Rightarrow> string \<Rightarrow> (App \<times> error option) option)) list" where
  "registerCommandHandlers =
     [(''help'', \<lambda>e app args. Some (helpCommand app args)),
      (''save'', \<lambda>e app args. Some (saveCommand e app args)),
      (''replacefrom'', \<lambda>e app args. Some (replaceFromCommand e app args)),
      (''appendfrom'', \<lambda>e app args. Some (appendFromCommand e app args)),
      (''prependfrom'', \<lambda>e app args. Some (prependFromCommand e app args)),
      (''clear'', \<lambda>e app args. Some (clearCommand e app args)),
      (''print'', \<lambda>e app args. Some (printCommand app args)),
      (''append'', \<lambda>e app args. Some (appendCommand e app args)),
      (''prepend'', \<lambda>e app args. Some (prependCommand app args)),
      (''model'', \<lambda>e app args. Some (modelCommand app args)),
      (''pop'', \<lambda>e app args. Some (popCommand e app args)),
      (''escape'', escapeCommand),
      (''nano'', \<lambda>e app args. Some (nanoCommand e app args)),
      (''ns'', nanoSendCommand),
      (''send'', sendCommand),
      (''autosave'', \<lambda>e app args. Some (autosaveCommand e app args)),
      (''exit'', \<lambda>e app args. Some (exitCommand app args))]"

subsection \<open>main.go: one turn of the input loop\<close>

text \<open>
  \<^verbatim>\<open>appMain\<close>; \<open>rd\<close> is what \<^verbatim>\<open>reader.Readline()\<close> returned. The result is
  whether the loop goes on, and the new App; \<open>None\<close> when the exchange blocks forever.
\<close>

definition appMain :: "Env \<Rightarrow> App \<Rightarrow> error + string \<Rightarrow> (bool \<times> App) option" where
  "appMain e app rd =
     (case rd of
        Inl er \<Rightarrow> Some (False, app)
      | Inr line0 \<Rightarrow>
          (let line = strings_TrimSpace line0
           in if line = [] then Some (True, app)
              else if hd line = CHR ''/'' \<and> \<not> slashCommandsDisabled app then
                (case strings_Cut line of
                   (commandName0, arguments, found) \<Rightarrow>
                     (let commandName = strings_TrimSpace (tl commandName0)
                      in case map_of registerCommandHandlers commandName of
                           None \<Rightarrow>
                             Some (True,
                               app\<lparr>printed := printed app @ [PrintError (UnknownCommand commandName)]\<rparr>)
                         | Some fn \<Rightarrow>
                             (case fn e app (strings_TrimSpace arguments) of
                                None \<Rightarrow> None
                              | Some (app1, er) \<Rightarrow>
                                  (case er of
                                     None \<Rightarrow> Some (True, app1)
                                   | Some x \<Rightarrow>
                                       Some (True,
                                         app1\<lparr>printed := printed app1 @
                                           [PrintError (CommandFailed commandName x)]\<rparr>)))))
              else
                (let app1 = appendToContext e app \<lparr>Role = ''user'', Content = line\<rparr>
                 in case sendContextAndProcessResponse e app1 of
                      None \<Rightarrow> None
                    | Some ((responseContent, er), app2) \<Rightarrow>
                        (case er of
                           Some x \<Rightarrow>
                             Some (True,
                               fst (popFromContext e
                                      (app2\<lparr>printed := printed app2 @ [PrintError (NoChangesDone x)]\<rparr>)
                                      1))
                         | None \<Rightarrow>
                             if forgetful app2 then Some (True, fst (popFromContext e app2 1))
                             else
                               Some (True,
                                 appendToContext e app2
                                   \<lparr>Role = ''assistant'', Content = responseContent\<rparr>)))))"

text \<open>
  \<^verbatim>\<open>mainLoop\<close> over a reader that yields the given lines and then \<^verbatim>\<open>io.EOF\<close> (the
  test's \<^verbatim>\<open>MockReadliner\<close>): the banner, then \<open>appMain\<close> until it returns false. A
  turn that called \<^verbatim>\<open>os.Exit\<close> is the last one. The prompt and the colours are left
  out.
\<close>

fun inputLoop :: "Env \<Rightarrow> App \<Rightarrow> string list \<Rightarrow> App option" where
  "inputLoop e app [] = map_option snd (appMain e app (Inl EOF))"
| "inputLoop e app (line # rest) =
     (case appMain e app (Inr line) of
        None \<Rightarrow> None
      | Some (running, app1) \<Rightarrow>
          if running \<and> exited app1 = None then inputLoop e app1 rest else Some app1)"

definition mainLoop :: "Env \<Rightarrow> App \<Rightarrow> string list \<Rightarrow> App option" where
  "mainLoop e app lines =
     inputLoop e
       (if \<not> quiet app \<and> \<not> slashCommandsDisabled app then
          app\<lparr>printed := printed app @
            [Print (''Enter '' @ [CHR 0x22] @ ''/help'' @ [CHR 0x22] @ '' for a list of commands.''
                      @ [CHR 0x0A])]\<rparr>
        else app)
       lines"

subsection \<open>An environment to run the program in\<close>

text \<open>
  A JSON codec to stand for \<^verbatim>\<open>encoding/json\<close> when the program is run on concrete
  inputs. \<open>refMarshalIndent\<close> writes the layout of
  \<^verbatim>\<open>json.MarshalIndent(context, "", "\t")\<close>: one object per message, its two fields
  on lines of their own. \<open>refUnmarshal\<close> reads an array of objects whose members are
  strings; it takes the role from the member named \<open>role\<close> and the content from the
  member named \<open>content\<close>, and refuses every other document.
\<close>

definition escapeChar :: "char \<Rightarrow> string" where
  "escapeChar c =
     (if c = CHR 0x22 then [CHR 0x5C, CHR 0x22]
      else if c = CHR 0x5C then [CHR 0x5C, CHR 0x5C]
      else if c = CHR 0x0A then [CHR 0x5C, CHR ''n'']
      else if c = CHR 0x0D then [CHR 0x5C, CHR ''r'']
      else if c = CHR 0x09 then [CHR 0x5C, CHR ''t'']
      else [c])"

definition quoteString :: "string \<Rightarrow> string" where
  "quoteString s = [CHR 0x22] @ concat (map escapeChar s) @ [CHR 0x22]"

definition marshalMessage :: "Message \<Rightarrow> string" where
  "marshalMessage m =
     [CHR 0x09] @ ''{'' @ [CHR 0x0A, CHR 0x09, CHR 0x09] @ quoteString ''role'' @ '': ''
       @ quoteString (Role m) @ '','' @ [CHR 0x0A, CHR 0x09, CHR 0x09] @ quoteString ''content''
       @ '': '' @ quoteString (Content m) @ [CHR 0x0A, CHR 0x09] @ ''}''"

fun joinLines :: "string list \<Rightarrow> string" where
  "joinLines [] = []"
| "joinLines [x] = x"
| "joinLines (x # y # ys) = x @ '','' @ [CHR 0x0A] @ joinLines (y # ys)"

definition refMarshalIndent :: "Message list \<Rightarrow> error + string" where
  "refMarshalIndent ms =
     (if ms = [] then Inr ''[]''
      else Inr (''['' @ [CHR 0x0A] @ joinLines (map marshalMessage ms) @ [CHR 0x0A] @ '']''))"

datatype token = LBracket | RBracket | LBrace | RBrace | Colon | Comma | Str string

datatype lexstate = Outside | InString string | InEscape string

definition unescapeChar :: "char \<Rightarrow> char option" where
  "unescapeChar c =
     (if c = CHR 0x22 then Some (CHR 0x22)
      else if c = CHR 0x5C then Some (CHR 0x5C)
      else if c = CHR ''/'' then Some (CHR ''/'')
      else if c = CHR ''n'' then Some (CHR 0x0A)
      else if c = CHR ''r'' then Some (CHR 0x0D)
      else if c = CHR ''t'' then Some (CHR 0x09)
      else None)"

fun lexJSON :: "lexstate \<Rightarrow> token list \<Rightarrow> string \<Rightarrow> token list option" where
  "lexJSON Outside acc [] = Some acc"
| "lexJSON (InString s) acc [] = None"
| "lexJSON (InEscape s) acc [] = None"
| "lexJSON Outside acc (c # cs) =
     (if isSpace c then lexJSON Outside acc cs
      else if c = CHR ''['' then lexJSON Outside (acc @ [LBracket]) cs
      else if c = CHR '']'' then lexJSON Outside (acc @ [RBracket]) cs
      else if c = CHR ''{'' then lexJSON Outside (acc @ [LBrace]) cs
      else if c = CHR ''}'' then lexJSON Outside (acc @ [RBrace]) cs
      else if c = CHR '':'' then lexJSON Outside (acc @ [Colon]) cs
      else if c = CHR '','' then lexJSON Outside (acc @ [Comma]) cs
      else if c = CHR 0x22 then lexJSON (InString []) acc cs
      else None)"
| "lexJSON (InString s) acc (c # cs) =
     (if c = CHR 0x22 then lexJSON Outside (acc @ [Str s]) cs
      else if c = CHR 0x5C then lexJSON (InEscape s) acc cs
      else lexJSON (InString (s @ [c])) acc cs)"
| "lexJSON (InEscape s) acc (c # cs) =
     (case unescapeChar c of
        None \<Rightarrow> None
      | Some d \<Rightarrow> lexJSON (InString (s @ [d])) acc cs)"

datatype expect =
    XOpen | XFirst | XElem | XKeyOrClose | XKey | XColon string | XValue string | XMore | XSep
  | XEnd

definition setMember :: "string \<Rightarrow> string \<Rightarrow> Message \<Rightarrow> Message" where
  "setMember k v m =
     (if k = ''role'' then m\<lparr>Role := v\<rparr> else if k = ''content'' then m\<lparr>Content := v\<rparr> else m)"

definition parseStep ::
  "expect \<times> Message list \<times> Message \<Rightarrow> token \<Rightarrow> (expect \<times> Message list \<times> Message) option" where
  "parseStep st tok =
     (case st of
        (x, acc, cur) \<Rightarrow>
          (case x of
             XOpen \<Rightarrow> (case tok of LBracket \<Rightarrow> Some (XFirst, acc, cur) | _ \<Rightarrow> None)
           | XFirst \<Rightarrow>
               (case tok of
                  RBracket \<Rightarrow> Some (XEnd, acc, cur)
                | LBrace \<Rightarrow> Some (XKeyOrClose, acc, \<lparr>Role = [], Content = []\<rparr>)
                | _ \<Rightarrow> None)
           | XElem \<Rightarrow>
               (case tok of
                  LBrace \<Rightarrow> Some (XKeyOrClose, acc, \<lparr>Role = [], Content = []\<rparr>)
                | _ \<Rightarrow> None)
           | XKeyOrClose \<Rightarrow>
               (case tok of
                  RBrace \<Rightarrow> Some (XSep, acc @ [cur], cur)
                | Str k \<Rightarrow> Some (XColon k, acc, cur)
                | _ \<Rightarrow> None)
           | XKey \<Rightarrow> (case tok of Str k \<Rightarrow> Some (XColon k, acc, cur) | _ \<Rightarrow> None)
           | XColon k \<Rightarrow> (case tok of Colon \<Rightarrow> Some (XValue k, acc, cur) | _ \<Rightarrow> None)
           | XValue k \<Rightarrow> (case tok of Str v \<Rightarrow> Some (XMore, acc, setMember k v cur) | _ \<Rightarrow> None)
           | XMore \<Rightarrow>
               (case tok of
                  Comma \<Rightarrow> Some (XKey, acc, cur)
                | RBrace \<Rightarrow> Some (XSep, acc @ [cur], cur)
                | _ \<Rightarrow> None)
           | XSep \<Rightarrow>
               (case tok of
                  Comma \<Rightarrow> Some (XElem, acc, cur)
                | RBracket \<Rightarrow> Some (XEnd, acc, cur)
                | _ \<Rightarrow> None)
           | XEnd \<Rightarrow> None))"

fun parseTokens :: "expect \<times> Message list \<times> Message \<Rightarrow> token list \<Rightarrow> Message list option" where
  "parseTokens st [] = (case st of (XEnd, acc, cur) \<Rightarrow> Some acc | _ \<Rightarrow> None)"
| "parseTokens st (tok # toks) =
     (case parseStep st tok of None \<Rightarrow> None | Some st' \<Rightarrow> parseTokens st' toks)"

definition refUnmarshal :: "string \<Rightarrow> error + Message list" where
  "refUnmarshal data =
     (case lexJSON Outside [] data of
        None \<Rightarrow> Inl (LibraryError ''json: invalid character'')
      | Some toks \<Rightarrow>
          (case parseTokens (XOpen, [], \<lparr>Role = [], Content = []\<rparr>) toks of
             None \<Rightarrow> Inl (LibraryError ''json: cannot unmarshal'')
           | Some ms \<Rightarrow> Inr ms))"

text \<open>
  The environment of the repository's tests (\<^verbatim>\<open>gptrepl_test.go\<close>): the mock API
  answers its \<open>k\<close>-th call with the \<open>k\<close>-th scripted outcome and refuses every call
  after them; every path is writable but the one \<^verbatim>\<open>TestAutosaveCommandInvalidFile\<close>
  uses. \<open>makeTestApp\<close> is the test's App.
\<close>

definition testEnv :: "(error + chan) list \<Rightarrow> (nat \<Rightarrow> real) \<Rightarrow> error + string \<Rightarrow> Env" where
  "testEnv outcomes rnd ed =
     \<lparr>json_MarshalIndent = refMarshalIndent,
      json_Unmarshal = refUnmarshal,
      writable = (\<lambda>path. path \<noteq> ''diwma/fnciauoc/cwaonjdcin.json''),
      capi_SendContext =
        (\<lambda>k ctx. if k < length outcomes then outcomes ! k
                  else Inl (LibraryError ''connection refused'')),
      rand_Float64 = rnd,
      editor = ed\<rparr>"

definition makeTestApp :: App where
  "makeTestApp =
     \<lparr>context = [], model = ''test-model'', slashCommandsDisabled = False, quiet = True,
      forgetful = False, maxRetries = 5, apiKey = ''sk-test'', autosaveFilePath = [],
      printed = [], sent = [], files = Map.empty, slept = [], draws = 0, exited = None\<rparr>"

text \<open>
  Test data of \<^verbatim>\<open>gptrepl_test.go\<close>: the deltas the mock API streams in
  \<^verbatim>\<open>TestEscapeCommand\<close>, and the context of \<^verbatim>\<open>TestPopCommand\<close>. \<open>quietEnv\<close> is
  an environment whose API refuses every call.
\<close>

definition testContent :: "CompletionDelta list" where
  "testContent =
     [\<lparr>delta = ''abc '', err = None\<rparr>, \<lparr>delta = ''def'', err = None\<rparr>,
      \<lparr>delta = [], err = Some EOF\<rparr>]"

definition testContext :: "Message list" where
  "testContext =
     [\<lparr>Role = ''system'', Content = ''a''\<rparr>, \<lparr>Role = ''user'', Content = ''b''\<rparr>,
      \<lparr>Role = ''assistant'', Content = ''c''\<rparr>]"

definition quietEnv :: Env where
  "quietEnv = testEnv [] (\<lambda>k. 0) (Inr [])"


definition deadEnv :: Env where
  "deadEnv = testEnv [] (\<lambda>k. 3 / 4) (Inr ''edited'')"





text \<open>
  What the context file's round trip asks of \<^verbatim>\<open>encoding/json\<close>: it encodes the
  context without error, and decodes the encoding to the same messages.
\<close>

definition codecRoundTrips :: "Env \<Rightarrow> Message list \<Rightarrow> bool" where
  "codecRoundTrips e ctx =
     (case json_MarshalIndent e ctx of
        Inl er \<Rightarrow> False
      | Inr data \<Rightarrow> json_Unmarshal e data = Inr ctx)"

text \<open>A stored context file whose third record has the role \<open>narrator\<close>, and an App
  that can read it.\<close>

definition narratorContext :: "Message list" where
  "narratorContext =
     [\<lparr>Role = ''user'', Content = ''a''\<rparr>, \<lparr>Role = ''assistant'', Content = ''b''\<rparr>,
      \<lparr>Role = ''narrator'', Content = ''c''\<rparr>]"

definition narratorApp :: App where
  "narratorApp =
     makeTestApp\<lparr>context := testContext,
       files := [''story.json'' \<mapsto> projr (refMarshalIndent narratorContext)]\<rparr>"

text \<open>
  The waits between attempts as the specification states them, to compare the
  program's sleeps with: the first wait is \<open>w\<close>, and each next wait is the previous
  one times 2 plus a fresh jitter (\<open>jitter d\<close> is the \<open>d\<close>-th one drawn).
\<close>

fun backoffWaits :: "(nat \<Rightarrow> real) \<Rightarrow> real \<Rightarrow> nat \<Rightarrow> nat \<Rightarrow> real list" where
  "backoffWaits jitter w d 0 = []"
| "backoffWaits jitter w d (Suc n) = w # backoffWaits jitter (w * 2 + jitter d) (Suc d) n"

text \<open>The tokens of the encoding that \<open>refMarshalIndent\<close> writes.\<close>

definition messageTokens :: "Message \<Rightarrow> token list" where
  "messageTokens m =
     [LBrace, Str ''role'', Colon, Str (Role m), Comma, Str ''content'', Colon, Str (Content m),
      RBrace]"

fun contextTokens :: "Message list \<Rightarrow> token list" where
  "contextTokens [] = []"
| "contextTokens [m] = messageTokens m"
| "contextTokens (m # m' # ms) = messageTokens m @ Comma # contextTokens (m' # ms)"

section \<open>Properties\<close>

subsection \<open>The context store\<close>

text \<open>Refreshing the autosave file touches the file system and the printer only.\<close>

lemma tryUpdateAutosaveFile_fields:
  "context (tryUpdateAutosaveFile e app) = context app"
  "autosaveFilePath (tryUpdateAutosaveFile e app) = autosaveFilePath app"
  "sent (tryUpdateAutosaveFile e app) = sent app"
  "forgetful (tryUpdateAutosaveFile e app) = forgetful app"
  "maxRetries (tryUpdateAutosaveFile e app) = maxRetries app"
  "slept (tryUpdateAutosaveFile e app) = slept app"
  "draws (tryUpdateAutosaveFile e app) = draws app"
  by (simp_all add: tryUpdateAutosaveFile_def split: prod.splits option.splits)

text \<open>
  C5. For every context and every integer \<open>n\<close> with \<open>1 \<le> n \<le> len(context)\<close>,
  \<open>popFromContext\<close> returns no error, and the new context is the first
  \<open>len(context) - n\<close> messages of the old one, unchanged: exactly the last \<open>n\<close> are
  removed. For \<open>n < 1\<close> or \<open>n > len(context)\<close> it returns an error and the App (its
  context included) is as before.
\<close>

theorem popFromContext_removes_last_n:
  "(1 \<le> n \<and> n \<le> int (length (context app)) \<longrightarrow>
      snd (popFromContext e app n) = None \<and>
      context (fst (popFromContext e app n)) = take (length (context app) - nat n) (context app) \<and>
      length (context (fst (popFromContext e app n))) + nat n = length (context app)) \<and>
   (n < 1 \<or> int (length (context app)) < n \<longrightarrow>
      fst (popFromContext e app n) = app \<and> snd (popFromContext e app n) \<noteq> None)"
  by (auto simp: popFromContext_def tryUpdateAutosaveFile_fields)

theorem popFromContext_removes_last_n_witness:
  "(1::int) \<le> 2 \<and> 2 \<le> int (length (context (makeTestApp\<lparr>context := testContext, autosaveFilePath := ''P''\<rparr>))) \<and>
   snd (popFromContext quietEnv (makeTestApp\<lparr>context := testContext, autosaveFilePath := ''P''\<rparr>) 2) = None \<and>
   context (fst (popFromContext quietEnv (makeTestApp\<lparr>context := testContext, autosaveFilePath := ''P''\<rparr>) 2))
     = [\<lparr>Role = ''system'', Content = ''a''\<rparr>] \<and>
   (0::int) < 1 \<and>
   fst (popFromContext quietEnv (makeTestApp\<lparr>context := testContext, autosaveFilePath := ''P''\<rparr>) 0)
     = makeTestApp\<lparr>context := testContext, autosaveFilePath := ''P''\<rparr> \<and>
   snd (popFromContext quietEnv (makeTestApp\<lparr>context := testContext, autosaveFilePath := ''P''\<rparr>) 0) \<noteq> None \<and>
   int (length (context (makeTestApp\<lparr>context := testContext, autosaveFilePath := ''P''\<rparr>))) < 4 \<and>
   fst (popFromContext quietEnv (makeTestApp\<lparr>context := testContext, autosaveFilePath := ''P''\<rparr>) 4)
     = makeTestApp\<lparr>context := testContext, autosaveFilePath := ''P''\<rparr>"
  using popFromContext_removes_last_n [of 2 "makeTestApp\<lparr>context := testContext, autosaveFilePath := ''P''\<rparr>" quietEnv]
    popFromContext_removes_last_n [of 0 "makeTestApp\<lparr>context := testContext, autosaveFilePath := ''P''\<rparr>" quietEnv]
    popFromContext_removes_last_n [of 4 "makeTestApp\<lparr>context := testContext, autosaveFilePath := ''P''\<rparr>" quietEnv]
  by (simp add: testContext_def)

subsection \<open>Draining the stream\<close>

text \<open>Deltas without an error are collected and printed in order.\<close>

lemma collectLoop_append:
  "list_all (\<lambda>d. err d = None) pre \<Longrightarrow>
     collectLoop collect pr (pre @ rest) cl =
       collectLoop (collect @ concat (map delta pre)) (pr @ map (\<lambda>d. Print (delta d)) pre) rest cl"
  by (induction pre arbitrary: collect pr) (simp_all add: errors_Is_def)

text \<open>
  C7. When the deltas \<open>ds\<close> carry no error and the next delta is the end-of-stream
  marker (\<^verbatim>\<open>io.EOF\<close>), draining returns the concatenation of the texts of \<open>ds\<close> in
  arrival order, with no error. When the next delta carries another error \<open>x\<close>
  instead, draining returns \<open>x\<close> with the empty text: what was collected from \<open>ds\<close> is
  dropped. Either way the drain returns, whatever follows in the channel.
\<close>

theorem printAndCollectStream_concatenates:
  "list_all (\<lambda>d. err d = None) ds \<Longrightarrow>
     printAndCollectStream pr (Chan (ds @ \<lparr>delta = t, err = Some EOF\<rparr> # rest) cl) =
       Some ((concat (map delta ds), None), pr @ map (\<lambda>d. Print (delta d)) ds @ [Print [CHR 0x0A]]) \<and>
     (x \<noteq> EOF \<longrightarrow>
        printAndCollectStream pr (Chan (ds @ \<lparr>delta = t, err = Some x\<rparr> # rest) cl) =
          Some (([], Some x), pr @ map (\<lambda>d. Print (delta d)) ds))"
  by (simp add: printAndCollectStream_def collectLoop_append errors_Is_def)

theorem printAndCollectStream_concatenates_witness:
  "list_all (\<lambda>d. err d = None) (butlast testContent) \<and>
   printAndCollectStream [] (Chan testContent False) = Some ((''abc def'', None), [Print ''abc '', Print ''def'', Print [CHR 0x0A]]) \<and>
   LibraryError ''reset'' \<noteq> EOF \<and>
   printAndCollectStream [] (Chan (butlast testContent @ [\<lparr>delta = ''x'', err = Some (LibraryError ''reset'')\<rparr>, \<lparr>delta = ''y'', err = None\<rparr>]) True)
     = Some (([], Some (LibraryError ''reset'')), [Print ''abc '', Print ''def''])"
  using printAndCollectStream_concatenates [of "butlast testContent" "[]" "[]" "[]" False "LibraryError ''reset''"]
    printAndCollectStream_concatenates [of "butlast testContent" "[]" "''x''" "[\<lparr>delta = ''y'', err = None\<rparr>]" True "LibraryError ''reset''"]
  by (simp add: testContent_def)

text \<open>
  C10. When the producer closes the channel after deltas \<open>ds\<close> none of which carries an
  error (no \<^verbatim>\<open>io.EOF\<close> delta either), draining returns the concatenation of their
  texts as a successful response.
\<close>

theorem printAndCollectStream_closed_channel:
  "list_all (\<lambda>d. err d = None) ds \<Longrightarrow>
     printAndCollectStream pr (Chan ds True) =
       Some ((concat (map delta ds), None), pr @ map (\<lambda>d. Print (delta d)) ds @ [Print [CHR 0x0A]])"
  using collectLoop_append [of ds "[]" pr "[]" True] by (simp add: printAndCollectStream_def)

theorem printAndCollectStream_closed_channel_witness:
  "list_all (\<lambda>d. err d = None) (butlast testContent) \<and>
   printAndCollectStream [] (Chan (butlast testContent) True) =
     Some ((''abc def'', None), [Print ''abc '', Print ''def'', Print [CHR 0x0A]])"
  using printAndCollectStream_closed_channel [of "butlast testContent" "[]"]
  by (simp add: testContent_def)

subsection \<open>The retry loop\<close>

declare retryLoop.simps [simp del]





subsection \<open>The exchange\<close>






subsection \<open>One turn of the input loop\<close>












subsection \<open>The context file\<close>

lemma checkRoles_valid:
  "list_all (\<lambda>m. isRoleValid (Role m)) ms \<Longrightarrow> checkRoles path idx ms = None"
  by (induction ms arbitrary: idx) simp_all

lemma checkRoles_first_invalid:
  "i < length ms \<Longrightarrow> \<not> isRoleValid (Role (ms ! i)) \<Longrightarrow>
   list_all (\<lambda>m. isRoleValid (Role m)) (take i ms) \<Longrightarrow>
   checkRoles path idx ms = Some (InvalidRoleAttribute path (idx + i))"
proof (induction ms arbitrary: idx i)
  case Nil
  then show ?case by simp
next
  case (Cons m ms)
  show ?case
  proof (cases i)
    case 0
    with Cons.prems show ?thesis by simp
  next
    case (Suc j)
    with Cons.prems have "j < length ms" "\<not> isRoleValid (Role (ms ! j))"
      "list_all (\<lambda>m. isRoleValid (Role m)) (take j ms)" "isRoleValid (Role m)"
      by simp_all
    with Cons.IH [of j "idx + 1"] Suc show ?thesis by simp
  qed
qed



text \<open>
  C9. Let the file at \<open>path\<close> decode to the records \<open>ms\<close>, and let \<open>i\<close> be the index
  (from zero) of the first record whose role is not one of user, assistant, system.
  Then \<open>parseContextFile\<close> fails with the invalid-role error that names \<open>path\<close> and
  \<open>i\<close>, and \<^verbatim>\<open>/replacefrom path\<close> returns that error and the App as it was.
\<close>

theorem invalid_role_rejected:
  assumes "files app path = Some data" and "json_Unmarshal e data = Inr ms" and "path \<noteq> []"
    and "i < length ms" and "\<not> isRoleValid (Role (ms ! i))"
    and "list_all (\<lambda>m. isRoleValid (Role m)) (take i ms)"
  shows "parseContextFile e (files app) path = Inl (InvalidRoleAttribute path i) \<and>
         replaceFromCommand e app path = (app, Some (InvalidRoleAttribute path i))"
proof -
  have "checkRoles path 0 ms = Some (InvalidRoleAttribute path i)"
    using checkRoles_first_invalid [OF assms(4-6), of path 0] by simp
  then have "parseContextFile e (files app) path = Inl (InvalidRoleAttribute path i)"
    using assms(1,2) by (simp add: parseContextFile_def os_ReadFile_def)
  then show ?thesis
    using assms(3) by (simp add: replaceFromCommand_def readContextFileFromArguments_def)
qed

theorem invalid_role_rejected_witness:
  "files narratorApp ''story.json'' = Some (projr (refMarshalIndent narratorContext)) \<and>
   json_Unmarshal quietEnv (projr (refMarshalIndent narratorContext)) = Inr narratorContext \<and>
   ''story.json'' \<noteq> [] \<and> 2 < length narratorContext \<and>
   \<not> isRoleValid (Role (narratorContext ! 2)) \<and>
   list_all (\<lambda>m. isRoleValid (Role m)) (take 2 narratorContext) \<and>
   parseContextFile quietEnv (files narratorApp) ''story.json'' = Inl (InvalidRoleAttribute ''story.json'' 2) \<and>
   replaceFromCommand quietEnv narratorApp ''story.json'' =
     (narratorApp, Some (InvalidRoleAttribute ''story.json'' 2))"
proof -
  have f: "files narratorApp ''story.json'' = Some (projr (refMarshalIndent narratorContext))"
    by (simp add: narratorApp_def)
  have u: "json_Unmarshal quietEnv (projr (refMarshalIndent narratorContext)) = Inr narratorContext"
    by code_simp
  have p: "''story.json'' \<noteq> []"
    by simp
  have i: "2 < length narratorContext"
    by (simp add: narratorContext_def)
  have n: "\<not> isRoleValid (Role (narratorContext ! 2))"
    by code_simp
  have v: "list_all (\<lambda>m. isRoleValid (Role m)) (take 2 narratorContext)"
    by code_simp
  from invalid_role_rejected [OF f u p i n v] f u i n v show ?thesis
    by simp
qed

subsection \<open>The backoff\<close>

text \<open>
  What the loop sleeps: before each retry, the integer part (in seconds) of the
  specification's wait, whose jitter is a third of a \<^verbatim>\<open>rand.Float64()\<close> draw.
\<close>

lemma retryLoop_slept:
  "retryLoop e app r w s0 er0 = (s, er, app1) \<Longrightarrow>
   \<exists>n. slept app1 =
         slept app @ map time_Duration (backoffWaits (\<lambda>d. rand_Float64 e d / 3) w (draws app) n)
       \<and> draws app1 = draws app + n"
proof (induction e app r w s0 er0 rule: retryLoop.induct)
  case (1 e app retries waitTime stream er0)
  show ?case
  proof (cases "0 \<le> retries")
    case False
    with "1.prems" have "app1 = app" by (simp add: retryLoop.simps)
    then show ?thesis by (intro exI [of _ 0]) simp
  next
    case True
    obtain s' er' app' where sc: "SendContext e app = ((s', er'), app')"
      by (metis prod.exhaust)
    have app': "app' = app\<lparr>sent := sent app @ [context app]\<rparr>"
      using sc by (simp add: SendContext_def)
    show ?thesis
    proof (cases "er' \<noteq> None \<and> 0 < retries")
      case False
      with True sc "1.prems" have "app1 = app'" by (auto simp: retryLoop.simps)
      then show ?thesis using app' by (intro exI [of _ 0]) simp
    next
      case again: True
      let ?a = "app'\<lparr>slept := slept app' @ [time_Duration waitTime], draws := draws app' + 1\<rparr>"
      let ?w = "waitTime * 2 + rand_Float64 e (draws app') / 3"
      have run: "retryLoop e ?a (retries - 1) ?w s' er' = (s, er, app1)"
        using True sc again "1.prems" by (simp add: retryLoop.simps)
      from "1.IH" [OF True sc [symmetric] refl again run] obtain n where n:
        "slept app1 = slept ?a @ map time_Duration (backoffWaits (\<lambda>d. rand_Float64 e d / 3) ?w (draws ?a) n)"
        "draws app1 = draws ?a + n"
        by blast
      have "slept app1 = slept app @ map time_Duration
          (backoffWaits (\<lambda>d. rand_Float64 e d / 3) waitTime (draws app) (Suc n))"
        using n(1) app' by simp
      moreover have "draws app1 = draws app + Suc n"
        using n(2) app' by simp
      ultimately show ?thesis by blast
    qed
  qed
qed

text \<open>
  C4. The program at a failing input: with three retries, every attempt refused and
  every \<^verbatim>\<open>rand.Float64()\<close> draw \<open>3/4\<close> (a jitter of \<open>1/4\<close>), the waits as the
  specification states them are 1, 9/4 and 19/4 seconds; the program sleeps 1, 2 and 4 seconds, since
  \<^verbatim>\<open>time.Duration(waitTime)\<close> drops the fraction before the product with
  \<^verbatim>\<open>time.Second\<close>.
\<close>

theorem backoff_sleeps_whole_seconds:
  "slept (snd (the (sendContextAndProcessResponse deadEnv (makeTestApp\<lparr>maxRetries := 3\<rparr>)))) = [1, 2, 4] \<and>
   backoffWaits (\<lambda>d. rand_Float64 deadEnv d / 3) 1 0 3 = [1, 9 / 4, 19 / 4]"
  by code_simp

subsection \<open>The autosave mirror\<close>

text \<open>
  C1. The program at a failing input: with the autosave path \<open>P\<close> set,
  \<^verbatim>\<open>/prepend user hi\<close> changes the context and writes nothing, so the file at \<open>P\<close> still
  holds the empty context. The same input through \<^verbatim>\<open>/append\<close> leaves the file equal to
  the context.
\<close>

theorem prepend_skips_autosave:
  "context (the (mainLoop quietEnv makeTestApp [''/autosave P'', ''/prepend user hi''])) =
     [\<lparr>Role = ''user'', Content = ''hi''\<rparr>] \<and>
   parseContextFile quietEnv
     (files (the (mainLoop quietEnv makeTestApp [''/autosave P'', ''/prepend user hi'']))) ''P'' = Inr [] \<and>
   context (the (mainLoop quietEnv makeTestApp [''/autosave P'', ''/append user hi''])) =
     [\<lparr>Role = ''user'', Content = ''hi''\<rparr>] \<and>
   parseContextFile quietEnv
     (files (the (mainLoop quietEnv makeTestApp [''/autosave P'', ''/append user hi'']))) ''P'' =
     Inr [\<lparr>Role = ''user'', Content = ''hi''\<rparr>]"
  by code_simp

subsection \<open>The reference codec decodes what it encodes\<close>

text \<open>
  The round trip that \<open>codecRoundTrips\<close> asks for holds of the codec of \<open>testEnv\<close> for
  every context, whatever bytes its roles and contents hold: the lexer undoes the
  escapes of \<open>quoteString\<close>, and the parser rebuilds each message from its tokens.
\<close>

lemma lexJSON_escaped:
  "lexJSON (InString s) acc (concat (map escapeChar t) @ CHR 0x22 # rest) =
     lexJSON Outside (acc @ [Str (s @ t)]) rest"
proof (induction t arbitrary: s)
  case Nil
  then show ?case by simp
next
  case (Cons c t)
  have "lexJSON (InString s) acc (escapeChar c @ concat (map escapeChar t) @ CHR 0x22 # rest) =
      lexJSON (InString (s @ [c])) acc (concat (map escapeChar t) @ CHR 0x22 # rest)"
    by (simp add: escapeChar_def unescapeChar_def)
  then show ?case
    using Cons.IH [of "s @ [c]"] by simp
qed

lemma lexJSON_quoteString:
  "lexJSON Outside acc (quoteString t @ rest) = lexJSON Outside (acc @ [Str t]) rest"
  using lexJSON_escaped [of "[]" acc t rest] by (simp add: quoteString_def isSpace_def)

lemma lexJSON_marshalMessage:
  "lexJSON Outside acc (marshalMessage m @ rest) = lexJSON Outside (acc @ messageTokens m) rest"
  by (simp add: marshalMessage_def messageTokens_def lexJSON_quoteString isSpace_def)

lemma lexJSON_joinLines:
  "lexJSON Outside acc (joinLines (map marshalMessage ms) @ rest) =
     lexJSON Outside (acc @ contextTokens ms) rest"
proof (induction ms arbitrary: acc rule: contextTokens.induct)
  case 1
  then show ?case by simp
next
  case (2 m)
  then show ?case by (simp add: lexJSON_marshalMessage)
next
  case (3 m m' ms)
  have "lexJSON Outside acc (joinLines (map marshalMessage (m # m' # ms)) @ rest) =
      lexJSON Outside (acc @ messageTokens m @ [Comma])
        (joinLines (map marshalMessage (m' # ms)) @ rest)"
    by (simp add: lexJSON_marshalMessage isSpace_def)
  then show ?case
    using "3.IH" [of "acc @ messageTokens m @ [Comma]"] by simp
qed

lemma parseTokens_message:
  "x = XFirst \<or> x = XElem \<Longrightarrow>
   parseTokens (x, acc, cur) (messageTokens m @ rest) = parseTokens (XSep, acc @ [m], m) rest"
  by (cases m) (auto simp: messageTokens_def parseStep_def setMember_def)

lemma parseTokens_context:
  "ms \<noteq> [] \<Longrightarrow> x = XFirst \<or> x = XElem \<Longrightarrow>
   parseTokens (x, acc, cur) (contextTokens ms @ [RBracket]) = Some (acc @ ms)"
proof (induction ms arbitrary: x acc cur rule: contextTokens.induct)
  case 1
  then show ?case by simp
next
  case (2 m)
  then show ?case
    using parseTokens_message [of x acc cur m "[RBracket]"] by (simp add: parseStep_def)
next
  case (3 m m' ms)
  have "parseTokens (x, acc, cur) (contextTokens (m # m' # ms) @ [RBracket]) =
      parseTokens (XSep, acc @ [m], m) (Comma # contextTokens (m' # ms) @ [RBracket])"
    using parseTokens_message [of x acc cur m "Comma # contextTokens (m' # ms) @ [RBracket]"] "3.prems"
    by simp
  also have "\<dots> = parseTokens (XElem, acc @ [m], m) (contextTokens (m' # ms) @ [RBracket])"
    by (simp add: parseStep_def)
  also have "\<dots> = Some ((acc @ [m]) @ m' # ms)"
    by (rule "3.IH") simp_all
  finally show ?case by simp
qed

lemma refUnmarshal_refMarshalIndent:
  "refMarshalIndent ms = Inr data \<Longrightarrow> refUnmarshal data = Inr ms"
proof (cases "ms = []")
  case True
  assume "refMarshalIndent ms = Inr data"
  with True have "data = ''[]''" by (simp add: refMarshalIndent_def)
  with True show ?thesis by (simp add: refUnmarshal_def isSpace_def parseStep_def)
next
  case False
  assume "refMarshalIndent ms = Inr data"
  with False have data: "data = CHR ''['' # CHR 0x0A # joinLines (map marshalMessage ms) @ [CHR 0x0A, CHR '']'']"
    by (simp add: refMarshalIndent_def)
  have "lexJSON Outside [] data = lexJSON Outside ([LBracket] @ contextTokens ms) [CHR 0x0A, CHR '']'']"
    unfolding data using lexJSON_joinLines [of "[LBracket]" ms "[CHR 0x0A, CHR '']'']"]
    by (simp add: isSpace_def)
  then have "lexJSON Outside [] data = Some (LBracket # contextTokens ms @ [RBracket])"
    by (simp add: isSpace_def)
  moreover have "parseTokens (XOpen, [], \<lparr>Role = [], Content = []\<rparr>) (LBracket # contextTokens ms @ [RBracket])
      = Some ms"
    using parseTokens_context [OF False, of XFirst "[]" "\<lparr>Role = [], Content = []\<rparr>"]
    by (simp add: parseStep_def)
  ultimately show ?thesis
    by (simp add: refUnmarshal_def)
qed

lemma testEnv_codecRoundTrips: "codecRoundTrips (testEnv outcomes rnd ed) ctx"
  using refUnmarshal_refMarshalIndent [of ctx]
  by (auto simp: codecRoundTrips_def testEnv_def refMarshalIndent_def split: sum.splits)

text \<open>So in the test environment every context with valid roles is read back as written,
  at every writable path.\<close>

lemma testEnv_read_after_write:
  assumes "path \<noteq> ''diwma/fnciauoc/cwaonjdcin.json''"
    and "list_all (\<lambda>m. isRoleValid (Role m)) ctx"
  shows "parseContextFile (testEnv outcomes rnd ed)
           (snd (writeContextFile (testEnv outcomes rnd ed) fs path ctx)) path = Inr ctx"
proof -
  obtain data where data: "refMarshalIndent ctx = Inr data"
    by (cases "ctx = []") (simp_all add: refMarshalIndent_def)
  then have "refUnmarshal data = Inr ctx"
    by (rule refUnmarshal_refMarshalIndent)
  with data assms show ?thesis
    by (simp add: writeContextFile_def os_WriteFile_def parseContextFile_def os_ReadFile_def
        testEnv_def checkRoles_valid)
qed

end
